theory Spec2Isabelle
  imports Main "HOL-Library.Word"
begin

section \<open>JavaScript values\<close>

text \<open>
  A JavaScript string is a sequence of UTF-16 code units. ASCII literals of the source are
  written with \<open>js\<close>; a character outside ASCII is written as its code units.
\<close>

type_synonym jstring = "16 word list"

definition js :: "string \<Rightarrow> jstring" where
  "js s = map of_char s"

text \<open>
  The values that \<open>JSON.parse\<close>, \<open>res.json()\<close> and the messaging SDK hand to the
  handlers, with \<open>undefined\<close> for what a property read of an absent key gives. A
  number is given by its canonical text, the string Number::toString yields for it
  (\<open>1.5\<close>, \<open>-3\<close>, \<open>1e+21\<close>, \<open>Infinity\<close>), which determines it up to the sign of
  zero; an object is the list of its own properties, the first binding of a key being
  its value.
\<close>

datatype jsval =
    JUndefined
  | JNull
  | JBool bool
  | JNum jstring
  | JStr jstring
  | JArr "jsval list"
  | JObj "(jstring \<times> jsval) list"

datatype error =
    TypeError
  | FetchRejected
  | JsonRejected
  | PermissionRejected
  | TokenRejected

text \<open>The result of awaiting a promise: it rejects, or it resolves to a value.\<close>

datatype 'a awaited = Rejected | Resolved 'a

text \<open>
  ToBoolean: \<open>undefined\<close>, \<open>null\<close>, \<open>false\<close>, \<open>""\<close> and the numbers \<open>0\<close>,
  \<open>-0\<close> (both of text \<open>0\<close>) and \<open>NaN\<close> are falsy.
\<close>

fun truthy :: "jsval \<Rightarrow> bool" where
  "truthy JUndefined = False"
| "truthy JNull = False"
| "truthy (JBool b) = b"
| "truthy (JNum t) = (t \<noteq> js ''0'' \<and> t \<noteq> js ''NaN'')"
| "truthy (JStr s) = (s \<noteq> [])"
| "truthy (JArr xs) = True"
| "truthy (JObj kvs) = True"

text \<open>\<open>a || b\<close> is \<open>a\<close> when \<open>a\<close> is truthy, and \<open>b\<close> otherwise.\<close>

definition js_or :: "jsval \<Rightarrow> jsval \<Rightarrow> jsval" where
  "js_or a b = (if truthy a then a else b)"

text \<open>
  The property read \<open>v.k\<close>, for the keys the program reads (\<open>reply\<close>,
  \<open>notification\<close>, \<open>data\<close>, \<open>title\<close>, \<open>body\<close>, \<open>icon\<close>, \<open>badge\<close>, \<open>url\<close>),
  none of which is defined by a built-in prototype: it throws a TypeError on \<open>undefined\<close>
  and \<open>null\<close>, gives the own property of an object, and \<open>undefined\<close> elsewhere.
\<close>

fun get_prop :: "jsval \<Rightarrow> jstring \<Rightarrow> error + jsval" where
  "get_prop JUndefined k = Inl TypeError"
| "get_prop JNull k = Inl TypeError"
| "get_prop (JObj kvs) k = Inr (case map_of kvs k of None \<Rightarrow> JUndefined | Some v \<Rightarrow> v)"
| "get_prop (JBool b) k = Inr JUndefined"
| "get_prop (JNum t) k = Inr JUndefined"
| "get_prop (JStr s) k = Inr JUndefined"
| "get_prop (JArr xs) k = Inr JUndefined"

text \<open>Sequencing of computations that may throw.\<close>

definition and_then :: "error + 'a \<Rightarrow> ('a \<Rightarrow> error + 'b) \<Rightarrow> error + 'b" where
  "and_then m f = (case m of Inl e \<Rightarrow> Inl e | Inr x \<Rightarrow> f x)"

text \<open>
  ToString, as a template literal applies it to an interpolated value. An object is
  converted by its \<open>toString\<close> method: an object with no key \<open>toString\<close> of its own
  inherits the method that gives \<open>[object Object]\<close>; one that has such a key holds a
  JSON value there, which cannot be called, and as \<open>valueOf\<close> gives no primitive
  either, the conversion throws a TypeError. An array is converted by \<open>join\<close>, which
  converts its elements in turn, \<open>undefined\<close> and \<open>null\<close> giving the empty string.
\<close>

fun ToString :: "jsval \<Rightarrow> error + jstring" and join_elems :: "jsval list \<Rightarrow> error + jstring" where
  "ToString JUndefined = Inr (js ''undefined'')"
| "ToString JNull = Inr (js ''null'')"
| "ToString (JBool b) = Inr (if b then js ''true'' else js ''false'')"
| "ToString (JNum t) = Inr t"
| "ToString (JStr s) = Inr s"
| "ToString (JArr xs) = join_elems xs"
| "ToString (JObj kvs) =
     (case map_of kvs (js ''toString'') of
        Some m \<Rightarrow> Inl TypeError
      | None \<Rightarrow> Inr (js ''[object Object]''))"
| "join_elems [] = Inr []"
| "join_elems [x] =
     (case x of JUndefined \<Rightarrow> Inr [] | JNull \<Rightarrow> Inr [] | _ \<Rightarrow> ToString x)"
| "join_elems (x # y # ys) =
     and_then (case x of JUndefined \<Rightarrow> Inr [] | JNull \<Rightarrow> Inr [] | _ \<Rightarrow> ToString x) (\<lambda>a.
     and_then (join_elems (y # ys)) (\<lambda>b. Inr (a @ js '','' @ b)))"

text \<open>
  \<open>String.prototype.trim\<close> removes the code units of WhiteSpace and LineTerminator from
  both ends.
\<close>

definition WhiteSpace :: "16 word \<Rightarrow> bool" where
  "WhiteSpace c \<longleftrightarrow>
     c \<in> {0x9, 0xA, 0xB, 0xC, 0xD, 0x20, 0xA0, 0x1680, 0x2028, 0x2029, 0x202F, 0x205F,
          0x3000, 0xFEFF}
     \<or> (0x2000 \<le> c \<and> c \<le> 0x200A)"

definition trim :: "jstring \<Rightarrow> jstring" where
  "trim s = rev (dropWhile WhiteSpace (rev (dropWhile WhiteSpace s)))"

section \<open>The page: app.js\<close>

datatype readyState = CONNECTING | OPEN | CLOSING | CLOSED

record div_elem =
  className :: jstring
  innerHTML :: jstring

text \<open>
  A request handed to \<open>fetch\<close>; \<open>req_body\<close> is the value given to \<open>JSON.stringify\<close>.
\<close>

record request =
  req_url :: jstring
  req_method :: jstring
  req_headers :: "(jstring \<times> jstring) list"
  req_body :: jsval

datatype console_arg = NoArg | Val jsval | Err error | HostObject

datatype console_entry =
    ConsoleLog jstring console_arg
  | ConsoleError jstring console_arg

text \<open>
  The state the three controllers of app.js read and write. \<open>sockets\<close> holds the
  readyState of every WebSocket object created so far (an object is its index), \<open>ws\<close>
  is the variable of that name, \<open>object_urls\<close> the blobs for which
  \<open>URL.createObjectURL\<close> has made a URL (none is ever revoked), \<open>audioPlayer_src\<close>
  the index of the URL assigned to the audio element, \<open>chatbox\<close> the children of the
  transcript container, \<open>requests\<close> the calls of \<open>fetch\<close>, \<open>token_requests\<close> the
  number of calls of \<open>messaging.getToken\<close>. The scroll position of the chat box is
  layout and is not modelled.
\<close>

record page =
  sockets :: "readyState list"
  ws :: "nat option"
  callBtn_text :: jstring
  object_urls :: "nat list"
  audioPlayer_src :: "nat option"
  alerts :: "jstring list"
  token_requests :: nat
  chatbox :: "div_elem list"
  userInput_value :: jstring
  requests :: "request list"
  console :: "console_entry list"

subsection \<open>The call button\<close>

definition CALL_IDLE :: jstring where
  "CALL_IDLE = [0xD83D, 0xDCDE]"

definition CALL_END :: jstring where
  "CALL_END = [0xD83D, 0xDD34] @ js '' End''"

text \<open>
  Modelled from the spec: the markup of the page is not part of the sources; the call
  button starts with the idle glyph, the affordance's idle display state, and everything
  else starts empty.
\<close>

definition page_init :: page where
  "page_init =
     \<lparr>sockets = [], ws = None, callBtn_text = CALL_IDLE, object_urls = [],
      audioPlayer_src = None, alerts = [], token_requests = 0, chatbox = [],
      userInput_value = [], requests = [], console = []\<rparr>"

text \<open>
  The click listener of the call button. \<open>ws.close()\<close> on an open socket starts the
  closing handshake (readyState CLOSING); \<open>new WebSocket(wsUrl)\<close> makes a socket in
  state CONNECTING, which gets the three handlers below.
\<close>

definition ws_is_open :: "page \<Rightarrow> bool" where
  "ws_is_open s = (case ws s of None \<Rightarrow> False | Some i \<Rightarrow> sockets s ! i = OPEN)"

definition callBtn_click :: "page \<Rightarrow> page" where
  "callBtn_click s =
     (if ws_is_open s then
        s\<lparr>sockets := (sockets s)[the (ws s) := CLOSING],
          callBtn_text := CALL_IDLE,
          console := console s @ [ConsoleLog (js ''Call ended'') NoArg]\<rparr>
      else
        s\<lparr>sockets := sockets s @ [CONNECTING], ws := Some (length (sockets s))\<rparr>)"

datatype ws_data = Blob nat | Text jstring

text \<open>
  The handlers of socket \<open>i\<close>. The transport fires \<open>open\<close> on a connecting socket only,
  \<open>message\<close> on an open one, \<open>close\<close> on one that is not closed yet (a failed
  connection attempt, a close by the peer, the end of the closing handshake); an event
  the transport cannot fire leaves the page as it is.
\<close>

definition ws_onopen :: "nat \<Rightarrow> page \<Rightarrow> page" where
  "ws_onopen i s =
     (if i < length (sockets s) \<and> sockets s ! i = CONNECTING then
        s\<lparr>sockets := (sockets s)[i := OPEN],
          console := console s @ [ConsoleLog (js ''Connected to voice agent'') NoArg],
          callBtn_text := CALL_END\<rparr>
      else s)"

definition ws_onmessage :: "nat \<Rightarrow> ws_data \<Rightarrow> page \<Rightarrow> page" where
  "ws_onmessage i d s =
     (if i < length (sockets s) \<and> sockets s ! i = OPEN then
        (case d of
           Blob b \<Rightarrow>
             s\<lparr>object_urls := object_urls s @ [b],
               audioPlayer_src := Some (length (object_urls s))\<rparr>
         | Text t \<Rightarrow>
             s\<lparr>console := console s @ [ConsoleLog (js ''Message:'') (Val (JStr t))]\<rparr>)
      else s)"

definition ws_onclose :: "nat \<Rightarrow> page \<Rightarrow> page" where
  "ws_onclose i s =
     (if i < length (sockets s) \<and> sockets s ! i \<noteq> CLOSED then
        s\<lparr>sockets := (sockets s)[i := CLOSED],
          console := console s @ [ConsoleLog (js ''Disconnected'') NoArg],
          callBtn_text := CALL_IDLE\<rparr>
      else s)"

datatype event = Click | WsOpen nat | WsMessage nat ws_data | WsClose nat

fun step :: "event \<Rightarrow> page \<Rightarrow> page" where
  "step Click s = callBtn_click s"
| "step (WsOpen i) s = ws_onopen i s"
| "step (WsMessage i d) s = ws_onmessage i d s"
| "step (WsClose i) s = ws_onclose i s"

fun run :: "event list \<Rightarrow> page \<Rightarrow> page" where
  "run [] s = s"
| "run (e # es) s = run es (step e s)"

text \<open>The connections that are not closed.\<close>

definition active :: "page \<Rightarrow> nat list" where
  "active s = filter (\<lambda>i. sockets s ! i \<noteq> CLOSED) [0..<length (sockets s)]"

subsection \<open>The notification button\<close>

text \<open>
  The click listener of the notification button, given what
  \<open>Notification.requestPermission()\<close> and \<open>messaging.getToken()\<close> settle to. The
  token is requested only when the permission is \<open>"granted"\<close>.
\<close>

definition notify_btn_click :: "jstring awaited \<Rightarrow> jstring awaited \<Rightarrow> page \<Rightarrow> page" where
  "notify_btn_click permission_result token_result s =
     (case permission_result of
        Rejected \<Rightarrow>
          s\<lparr>console := console s
               @ [ConsoleError (js ''Error enabling notifications:'') (Err PermissionRejected)]\<rparr>
      | Resolved permission \<Rightarrow>
          if permission = js ''granted'' then
            (let s1 = s\<lparr>token_requests := token_requests s + 1\<rparr> in
             case token_result of
               Rejected \<Rightarrow>
                 s1\<lparr>console := console s1
                      @ [ConsoleError (js ''Error enabling notifications:'') (Err TokenRejected)]\<rparr>
             | Resolved token \<Rightarrow>
                 s1\<lparr>console := console s1
                      @ [ConsoleLog (js ''Notification token:'') (Val (JStr token))],
                    alerts := alerts s1 @ [js ''Notifications enabled!'']\<rparr>)
          else
            s\<lparr>alerts := alerts s @ [js ''Permission denied for notifications.'']\<rparr>)"

subsection \<open>The chat box\<close>

definition CHAT_PLACEHOLDER :: jstring where
  "CHAT_PLACEHOLDER = js ''Hmm... I'' @ [0x2019] @ js ''m thinking!''"

definition CHAT_ERROR :: jstring where
  "CHAT_ERROR = [0x26A0, 0xFE0F] @ js '' Error connecting to server''"

text \<open>
  \<open>appendMessage\<close>: the markup is built by a template literal, which throws when the
  text cannot be converted to a string; the element is appended after that. 0x22 is the
  double quote.
\<close>

definition message_html :: "jstring \<Rightarrow> jsval \<Rightarrow> error + jstring" where
  "message_html sender text =
     and_then (ToString text) (\<lambda>rendered.
       Inr (js ''<span class='' @ [0x22] @ js ''inline-block px-3 py-2 rounded-xl ''
            @ (if sender = js ''user'' then js ''bg-blue-600 text-white''
               else js ''bg-gray-300 text-black'')
            @ [0x22] @ js ''>'' @ rendered @ js ''</span>''))"

definition appendMessage :: "jstring \<Rightarrow> jsval \<Rightarrow> page \<Rightarrow> error + page" where
  "appendMessage sender text s =
     and_then (message_html sender text) (\<lambda>html.
       Inr (s\<lparr>chatbox := chatbox s @
              [\<lparr>className = (if sender = js ''user'' then js ''text-right my-1''
                              else js ''text-left my-1''),
                innerHTML = html\<rparr>]\<rparr>))"

text \<open>
  What \<open>fetch\<close> settles to: it rejects on a network error, and resolves to a response
  with its status code otherwise, whatever the code; \<open>json_body\<close> is what
  \<open>res.json()\<close> settles to, rejecting when the body is not JSON.
\<close>

record response =
  status :: nat
  json_body :: "jsval awaited"

definition chat_request :: "jstring \<Rightarrow> request" where
  "chat_request text =
     \<lparr>req_url = js ''/chat'', req_method = js ''POST'',
      req_headers = [(js ''Content-Type'', js ''application/json'')],
      req_body = JObj [(js ''message'', JStr text)]\<rparr>"

text \<open>The listener of the send button up to the call of \<open>fetch\<close>.\<close>

definition sendBtn_click_issue :: "jstring \<Rightarrow> page \<Rightarrow> error + page" where
  "sendBtn_click_issue text s =
     and_then (appendMessage (js ''user'') (JStr text) s) (\<lambda>s1.
       let s2 = s1\<lparr>userInput_value := []\<rparr>
       in Inr (s2\<lparr>requests := requests s2 @ [chat_request text]\<rparr>))"

text \<open>The value of \<open>data.reply\<close> in the try block, or what the block throws.\<close>

definition await_reply :: "response awaited \<Rightarrow> error + jsval" where
  "await_reply fetch_result =
     (case fetch_result of
        Rejected \<Rightarrow> Inl FetchRejected
      | Resolved res \<Rightarrow>
          (case json_body res of
             Rejected \<Rightarrow> Inl JsonRejected
           | Resolved data \<Rightarrow> get_prop data (js ''reply'')))"

text \<open>
  The try block once \<open>fetch\<close> has settled: it throws what the awaits, the property
  read or \<open>appendMessage\<close> throw.
\<close>

definition try_block :: "response awaited \<Rightarrow> page \<Rightarrow> error + page" where
  "try_block fetch_result s =
     and_then (await_reply fetch_result) (\<lambda>reply.
       appendMessage (js ''flossy'') (js_or reply (JStr CHAT_PLACEHOLDER)) s)"

definition catch_block :: "error \<Rightarrow> page \<Rightarrow> error + page" where
  "catch_block err s =
     appendMessage (js ''flossy'') (JStr CHAT_ERROR)
       (s\<lparr>console := console s @ [ConsoleError (js ''Chat error:'') (Err err)]\<rparr>)"

text \<open>
  A listener returns nothing: an exception that nothing catches ends it and leaves the
  page as it is at that point.
\<close>

definition sendBtn_click_resume :: "response awaited \<Rightarrow> page \<Rightarrow> page" where
  "sendBtn_click_resume fetch_result s =
     (case try_block fetch_result s of
        Inr s' \<Rightarrow> s'
      | Inl err \<Rightarrow>
          (case catch_block err s of
             Inr s' \<Rightarrow> s'
           | Inl err' \<Rightarrow>
               s\<lparr>console := console s @ [ConsoleError (js ''Chat error:'') (Err err)]\<rparr>))"

definition sendBtn_click :: "response awaited \<Rightarrow> page \<Rightarrow> page" where
  "sendBtn_click fetch_result s =
     (let text = trim (userInput_value s) in
      if text = [] then s
      else
        (case sendBtn_click_issue text s of
           Inl err \<Rightarrow> s
         | Inr s1 \<Rightarrow> sendBtn_click_resume fetch_result s1))"

section \<open>The background worker: firebase-messaging-sw.js\<close>

text \<open>The arguments of a call of \<open>showNotification\<close>; \<open>nData\<close> is the \<open>data\<close> option.\<close>

record shown_notification =
  nTitle :: jsval
  nBody :: jsval
  nIcon :: jsval
  nBadge :: jsval
  nData :: jsval

datatype sw_action =
    NotificationClose
  | ClientNavigate nat jsval
  | ClientFocus nat
  | OpenWindow jsval

record worker =
  shown :: "shown_notification list"
  sw_actions :: "sw_action list"
  sw_console :: "console_entry list"

definition worker_init :: worker where
  "worker_init = \<lparr>shown = [], sw_actions = [], sw_console = []\<rparr>"

definition SW_RECEIVED :: jstring where
  "SW_RECEIVED = [0xD83D, 0xDCE8] @ js '' Received background message:''"

definition SW_CLICKED :: jstring where
  "SW_CLICKED = [0xD83D, 0xDDB1, 0xFE0F] @ js '' Notification click received:''"

definition DEFAULT_TITLE :: jsval where
  "DEFAULT_TITLE = JStr (js ''FlossyAI Notification'')"

definition DEFAULT_BODY :: jsval where
  "DEFAULT_BODY = JStr (js ''You have a new message from FlossyAI!'')"

text \<open>
  The notification the handler of \<open>onBackgroundMessage\<close> builds from a payload; a
  payload that is \<open>null\<close> or \<open>undefined\<close> makes the first property read throw.
\<close>

definition build_notification :: "jsval \<Rightarrow> error + shown_notification" where
  "build_notification payload =
     and_then (get_prop payload (js ''notification'')) (\<lambda>pn.
     and_then (get_prop payload (js ''data'')) (\<lambda>pd.
       let notification = js_or pn (JObj []);
           data = js_or pd (JObj [])
       in
     and_then (get_prop notification (js ''title'')) (\<lambda>ntitle.
     and_then (get_prop data (js ''title'')) (\<lambda>dtitle.
     and_then (get_prop notification (js ''body'')) (\<lambda>nbody.
     and_then (get_prop data (js ''body'')) (\<lambda>dbody.
     and_then (get_prop notification (js ''icon'')) (\<lambda>nicon.
     and_then (get_prop data (js ''icon'')) (\<lambda>dicon.
     and_then (get_prop data (js ''badge'')) (\<lambda>dbadge.
     and_then (get_prop data (js ''url'')) (\<lambda>durl.
       Inr \<lparr>nTitle = js_or ntitle (js_or dtitle DEFAULT_TITLE),
            nBody = js_or nbody (js_or dbody DEFAULT_BODY),
            nIcon = js_or nicon (js_or dicon (JStr (js ''/static/flossy-icon.png''))),
            nBadge = js_or dbadge (JStr (js ''/static/flossy-badge.png'')),
            nData = JObj [(js ''url'', js_or durl (JStr (js ''/'')))]\<rparr>))))))))))"

definition onBackgroundMessage :: "jsval \<Rightarrow> worker \<Rightarrow> error + worker" where
  "onBackgroundMessage payload w =
     (let w1 = w\<lparr>sw_console := sw_console w @ [ConsoleLog SW_RECEIVED (Val payload)]\<rparr> in
      and_then (build_notification payload) (\<lambda>n. Inr (w1\<lparr>shown := shown w1 @ [n]\<rparr>)))"

text \<open>
  The click on a notification. \<open>clientList\<close> is what
  \<open>clients.matchAll({ type: "window" })\<close> resolves to, \<open>has_focus\<close> the test
  \<open>"focus" in client\<close>, \<open>openWindow_defined\<close> the test \<open>clients.openWindow\<close>.
\<close>

record client =
  client_id :: nat
  has_focus :: bool

record click_env =
  clientList :: "client list"
  openWindow_defined :: bool

text \<open>\<open>event.notification.data && event.notification.data.url\<close>\<close>

definition notification_url :: "shown_notification \<Rightarrow> jsval" where
  "notification_url n =
     (if truthy (nData n) then
        (case get_prop (nData n) (js ''url'') of Inr u \<Rightarrow> u | Inl e \<Rightarrow> JUndefined)
      else nData n)"

text \<open>The loop over the clients: it returns at the first client that can be focused.\<close>

fun focus_existing :: "shown_notification \<Rightarrow> client list \<Rightarrow> sw_action list option" where
  "focus_existing n [] = None"
| "focus_existing n (c # cs) =
     (if has_focus c then
        Some ((if truthy (notification_url n)
               then [ClientNavigate (client_id c) (notification_url n)] else [])
              @ [ClientFocus (client_id c)])
      else focus_existing n cs)"

definition notificationclick :: "click_env \<Rightarrow> shown_notification \<Rightarrow> worker \<Rightarrow> worker" where
  "notificationclick env n w =
     (let w1 = w\<lparr>sw_console := sw_console w @ [ConsoleLog SW_CLICKED HostObject]\<rparr>;
          w2 = w1\<lparr>sw_actions := sw_actions w1 @ [NotificationClose]\<rparr>
      in case focus_existing n (clientList env) of
           Some acts \<Rightarrow> w2\<lparr>sw_actions := sw_actions w2 @ acts\<rparr>
         | None \<Rightarrow>
             if openWindow_defined env \<and> truthy (notification_url n)
             then w2\<lparr>sw_actions := sw_actions w2 @ [OpenWindow (notification_url n)]\<rparr>
             else w2)"

section \<open>Notions used to state the properties\<close>

text \<open>
  The states a sequence of events leads through, the first being the state it starts in.
\<close>

fun states :: "event list \<Rightarrow> page \<Rightarrow> page list" where
  "states [] s = [s]"
| "states (e # es) s = s # states es (step e s)"

text \<open>
  The connection the controller holds is settled when it is neither connecting nor
  closing; a sequence of events is well timed when every click in it is made in a
  settled state.
\<close>

definition settled :: "page \<Rightarrow> bool" where
  "settled s =
     (case ws s of None \<Rightarrow> True | Some i \<Rightarrow> sockets s ! i = OPEN \<or> sockets s ! i = CLOSED)"

fun well_timed :: "event list \<Rightarrow> page \<Rightarrow> bool" where
  "well_timed [] s = True"
| "well_timed (e # es) s = ((e = Click \<longrightarrow> settled s) \<and> well_timed es (step e s))"

text \<open>The label shows the state of the connection the controller holds.\<close>

definition label_matches :: "page \<Rightarrow> bool" where
  "label_matches s = (callBtn_text s = (if ws_is_open s then CALL_END else CALL_IDLE))"

text \<open>
  A toggle that the transport completes before the next click: the click, then the
  \<open>open\<close> event of the socket it made, or the \<open>close\<close> event of the socket it is
  closing.
\<close>

definition transport_completes :: "page \<Rightarrow> page" where
  "transport_completes s =
     (case ws s of
        None \<Rightarrow> s
      | Some i \<Rightarrow>
          (case sockets s ! i of
             CONNECTING \<Rightarrow> ws_onopen i s
           | CLOSING \<Rightarrow> ws_onclose i s
           | OPEN \<Rightarrow> s
           | CLOSED \<Rightarrow> s))"

definition toggle :: "page \<Rightarrow> page" where
  "toggle s = transport_completes (callBtn_click s)"

text \<open>
  The derivation of a notification text in the words of the specification: the field of
  the payload's \<open>notification\<close>, else the field of its \<open>data\<close>, else the default, a
  field counting when it is there and truthy. \<open>spec_field\<close> reads a field that may be
  absent.
\<close>

definition spec_field :: "jsval \<Rightarrow> jstring \<Rightarrow> jsval" where
  "spec_field v k = (case v of JObj kvs \<Rightarrow> (case map_of kvs k of None \<Rightarrow> JUndefined | Some x \<Rightarrow> x)
                              | _ \<Rightarrow> JUndefined)"

definition spec_preferred :: "jsval \<Rightarrow> jstring \<Rightarrow> jsval \<Rightarrow> jsval" where
  "spec_preferred payload k dflt =
     (if truthy (spec_field (spec_field payload (js ''notification'')) k)
      then spec_field (spec_field payload (js ''notification'')) k
      else if truthy (spec_field (spec_field payload (js ''data'')) k)
      then spec_field (spec_field payload (js ''data'')) k
      else dflt)"

text \<open>
  The text of the entry that the try block or the catch block appends: the reply or the
  placeholder, converted to a string, or the error message when the try block throws.
\<close>

definition shown_text :: "response awaited \<Rightarrow> jstring" where
  "shown_text fetch_result =
     (case and_then (await_reply fetch_result)
             (\<lambda>reply. ToString (js_or reply (JStr CHAT_PLACEHOLDER))) of
        Inr rendered \<Rightarrow> rendered
      | Inl err \<Rightarrow> CHAT_ERROR)"

text \<open>
  The invariant of the call controller in well-timed runs: \<open>ws\<close> refers to a socket
  that exists, every other socket is closed, and the label matches.
\<close>

definition call_inv :: "page \<Rightarrow> bool" where
  "call_inv s \<longleftrightarrow>
     (case ws s of None \<Rightarrow> True | Some i \<Rightarrow> i < length (sockets s))
     \<and> (\<forall>j<length (sockets s). ws s \<noteq> Some j \<longrightarrow> sockets s ! j = CLOSED)
     \<and> label_matches s"

section \<open>The chat box: properties\<close>

lemma js_eq_Nil [simp]: "js s = [] \<longleftrightarrow> s = []"
  by (simp add: js_def)

lemma and_then_Inr [simp]: "and_then (Inr x) f = f x"
  by (simp add: and_then_def)

lemma and_then_Inl [simp]: "and_then (Inl e) f = Inl e"
  by (simp add: and_then_def)

lemma trim_empty_iff: "trim s = [] \<longleftrightarrow> (\<forall>c\<in>set s. WhiteSpace c)"
proof (cases "dropWhile WhiteSpace s")
  case Nil
  then have "\<forall>c\<in>set s. WhiteSpace c"
    by simp
  moreover have "trim s = []"
    unfolding trim_def Nil by simp
  ultimately show ?thesis
    by simp
next
  case (Cons x xs)
  then have nw: "\<not> WhiteSpace x"
    using hd_dropWhile [of WhiteSpace s] by simp
  have "x \<in> set (dropWhile WhiteSpace s)"
    using Cons by simp
  then have "x \<in> set s"
    by (rule set_dropWhileD)
  with nw Cons show ?thesis
    by (auto simp: trim_def)
qed

lemma trim_hi: "trim (userInput_value (page_init\<lparr>userInput_value := js '' hi ''\<rparr>)) = js ''hi''"
  by (simp add: trim_def js_def WhiteSpace_def)

lemma hi_not_blank: "trim (userInput_value (page_init\<lparr>userInput_value := js '' hi ''\<rparr>)) \<noteq> []"
  unfolding trim_hi by simp

lemma fresh_page:
  "chatbox (page_init\<lparr>userInput_value := js '' hi ''\<rparr>) = []"
  "requests (page_init\<lparr>userInput_value := js '' hi ''\<rparr>) = []"
  by (simp_all add: page_init_def)

lemma appendMessage_user:
  "appendMessage (js ''user'') (JStr t) s =
     Inr (s\<lparr>chatbox := chatbox s @
       [\<lparr>className = js ''text-right my-1'',
           innerHTML = js ''<span class='' @ [0x22]
             @ js ''inline-block px-3 py-2 rounded-xl bg-blue-600 text-white'' @ [0x22]
             @ js ''>'' @ t @ js ''</span>''\<rparr>]\<rparr>)"
  by (simp add: appendMessage_def message_html_def js_def)

lemma appendMessage_flossy:
  assumes "ToString v = Inr t"
  shows "appendMessage (js ''flossy'') v s =
     Inr (s\<lparr>chatbox := chatbox s @
       [\<lparr>className = js ''text-left my-1'',
           innerHTML = js ''<span class='' @ [0x22]
             @ js ''inline-block px-3 py-2 rounded-xl bg-gray-300 text-black'' @ [0x22]
             @ js ''>'' @ t @ js ''</span>''\<rparr>]\<rparr>)"
  using assms by (simp add: appendMessage_def message_html_def js_def)

lemma appendMessage_throws:
  assumes "ToString v = Inl e"
  shows "appendMessage sender v s = Inl e"
  using assms by (simp add: appendMessage_def message_html_def)

lemma sendBtn_click_issue_eq:
  "sendBtn_click_issue text s =
     Inr (s\<lparr>chatbox := chatbox s @
            [\<lparr>className = js ''text-right my-1'',
                innerHTML = js ''<span class='' @ [0x22]
                  @ js ''inline-block px-3 py-2 rounded-xl bg-blue-600 text-white'' @ [0x22]
                  @ js ''>'' @ text @ js ''</span>''\<rparr>],
          userInput_value := [],
          requests := requests s @ [chat_request text]\<rparr>)"
  by (simp add: sendBtn_click_issue_def appendMessage_user Let_def)

lemma sendBtn_click_resume_eq:
  "sendBtn_click_resume r s =
     (case and_then (await_reply r) (\<lambda>reply. ToString (js_or reply (JStr CHAT_PLACEHOLDER))) of
        Inr t \<Rightarrow>
          s\<lparr>chatbox := chatbox s @
            [\<lparr>className = js ''text-left my-1'',
                innerHTML = js ''<span class='' @ [0x22]
                  @ js ''inline-block px-3 py-2 rounded-xl bg-gray-300 text-black'' @ [0x22]
                  @ js ''>'' @ t @ js ''</span>''\<rparr>]\<rparr>
      | Inl e \<Rightarrow>
          (s\<lparr>console := console s @ [ConsoleError (js ''Chat error:'') (Err e)]\<rparr>)
            \<lparr>chatbox := chatbox s @
              [\<lparr>className = js ''text-left my-1'',
                  innerHTML = js ''<span class='' @ [0x22]
                    @ js ''inline-block px-3 py-2 rounded-xl bg-gray-300 text-black'' @ [0x22]
                    @ js ''>'' @ CHAT_ERROR @ js ''</span>''\<rparr>]\<rparr>)"
proof -
  have caught: "catch_block e s =
      Inr ((s\<lparr>console := console s @ [ConsoleError (js ''Chat error:'') (Err e)]\<rparr>)
        \<lparr>chatbox := chatbox s @
          [\<lparr>className = js ''text-left my-1'',
              innerHTML = js ''<span class='' @ [0x22]
                @ js ''inline-block px-3 py-2 rounded-xl bg-gray-300 text-black'' @ [0x22]
                @ js ''>'' @ CHAT_ERROR @ js ''</span>''\<rparr>]\<rparr>)" for e
  proof -
    have "ToString (JStr CHAT_ERROR) = Inr CHAT_ERROR"
      by simp
    then show ?thesis
      unfolding catch_block_def by (simp add: appendMessage_flossy)
  qed
  show ?thesis
  proof (cases "await_reply r")
    case (Inl e)
    then show ?thesis
      by (simp add: sendBtn_click_resume_def try_block_def caught)
  next
    case (Inr v)
    show ?thesis
    proof (cases "ToString (js_or v (JStr CHAT_PLACEHOLDER))")
      case (Inl e)
      then show ?thesis
        using Inr by (simp add: sendBtn_click_resume_def try_block_def appendMessage_throws caught)
    next
      case (Inr t)
      then show ?thesis
        using \<open>await_reply r = Inr v\<close>
        by (simp add: sendBtn_click_resume_def try_block_def appendMessage_flossy)
    qed
  qed
qed

lemma chatbox_resume:
  "chatbox (sendBtn_click_resume r s) = chatbox s @
     [\<lparr>className = js ''text-left my-1'',
         innerHTML = js ''<span class='' @ [0x22]
           @ js ''inline-block px-3 py-2 rounded-xl bg-gray-300 text-black'' @ [0x22]
           @ js ''>'' @ shown_text r @ js ''</span>''\<rparr>]"
  unfolding sendBtn_click_resume_eq shown_text_def
  by (simp split: sum.splits)

lemma requests_resume: "requests (sendBtn_click_resume r s) = requests s"
  unfolding sendBtn_click_resume_eq
  by (simp split: sum.splits)

lemma chatbox_click:
  assumes "trim (userInput_value s) \<noteq> []"
  shows "chatbox (sendBtn_click r s) = chatbox s @
     [\<lparr>className = js ''text-right my-1'',
         innerHTML = js ''<span class='' @ [0x22]
           @ js ''inline-block px-3 py-2 rounded-xl bg-blue-600 text-white'' @ [0x22]
           @ js ''>'' @ (trim (userInput_value s)) @ js ''</span>''\<rparr>,
      \<lparr>className = js ''text-left my-1'',
         innerHTML = js ''<span class='' @ [0x22]
           @ js ''inline-block px-3 py-2 rounded-xl bg-gray-300 text-black'' @ [0x22]
           @ js ''>'' @ shown_text r @ js ''</span>''\<rparr>]"
  using assms by (simp add: sendBtn_click_def Let_def sendBtn_click_issue_eq chatbox_resume)

lemma requests_click:
  assumes "trim (userInput_value s) \<noteq> []"
  shows "requests (sendBtn_click r s) = requests s @
     [\<lparr>req_url = js ''/chat'', req_method = js ''POST'',
         req_headers = [(js ''Content-Type'', js ''application/json'')],
         req_body = JObj [(js ''message'', JStr (trim (userInput_value s)))]\<rparr>]"
  using assms
  by (simp add: sendBtn_click_def Let_def sendBtn_click_issue_eq requests_resume chat_request_def)

lemma shown_text_rejected: "shown_text Rejected = CHAT_ERROR"
  by (simp add: shown_text_def await_reply_def)

lemma shown_text_bad_body:
  assumes "json_body res = Rejected \<or> json_body res = Resolved JNull"
  shows "shown_text (Resolved res) = CHAT_ERROR"
  using assms by (auto simp: shown_text_def await_reply_def)

lemma shown_text_string:
  assumes "json_body res = Resolved (JObj kvs)" and "map_of kvs (js ''reply'') = Some (JStr t)"
    and "t \<noteq> []"
  shows "shown_text (Resolved res) = t"
  using assms by (simp add: shown_text_def await_reply_def js_or_def)

lemma shown_text_falsy:
  assumes "json_body res = Resolved (JObj kvs)"
    and "map_of kvs (js ''reply'') = None \<or> (\<exists>v. map_of kvs (js ''reply'') = Some v \<and> \<not> truthy v)"
  shows "shown_text (Resolved res) = CHAT_PLACEHOLDER"
  using assms by (auto simp: shown_text_def await_reply_def js_or_def)

lemma shown_text_unrenderable:
  assumes "json_body res = Resolved (JObj kvs)" and "map_of kvs (js ''reply'') = Some (JObj kvs')"
    and "map_of kvs' (js ''toString'') = Some x"
  shows "shown_text (Resolved res) = CHAT_ERROR"
  using assms by (simp add: shown_text_def await_reply_def js_or_def)

lemma sendBtn_click_status:
  assumes "json_body res = json_body res'"
  shows "sendBtn_click (Resolved res) s = sendBtn_click (Resolved res') s"
proof -
  have "await_reply (Resolved res) = await_reply (Resolved res')"
    using assms by (simp add: await_reply_def)
  then have eq: "sendBtn_click_resume (Resolved res) = sendBtn_click_resume (Resolved res')"
    by (simp add: sendBtn_click_resume_eq fun_eq_iff)
  show ?thesis
    unfolding sendBtn_click_def eq by (rule refl)
qed

text \<open>
  C4. A send whose response body is \<open>{"reply": "Hello"}\<close> appends, after the user's
  entry, an agent entry whose text is exactly \<open>Hello\<close>; a response body \<open>{}\<close>, with
  no reply field, gives an agent entry with the fixed placeholder text.
\<close>

theorem chat_reply_hello_and_absent:
  assumes "trim (userInput_value s) \<noteq> []"
  shows "chatbox (sendBtn_click
            (Resolved \<lparr>status = code,
                json_body = Resolved (JObj [(js ''reply'', JStr (js ''Hello''))])\<rparr>) s)
         = chatbox s @
           [\<lparr>className = js ''text-right my-1'',
               innerHTML = js ''<span class='' @ [0x22]
                 @ js ''inline-block px-3 py-2 rounded-xl bg-blue-600 text-white'' @ [0x22]
                 @ js ''>'' @ (trim (userInput_value s)) @ js ''</span>''\<rparr>,
            \<lparr>className = js ''text-left my-1'',
               innerHTML = js ''<span class='' @ [0x22]
                 @ js ''inline-block px-3 py-2 rounded-xl bg-gray-300 text-black'' @ [0x22]
                 @ js ''>'' @ js ''Hello'' @ js ''</span>''\<rparr>]
       \<and> chatbox (sendBtn_click (Resolved \<lparr>status = code, json_body = Resolved (JObj [])\<rparr>) s)
         = chatbox s @
           [\<lparr>className = js ''text-right my-1'',
               innerHTML = js ''<span class='' @ [0x22]
                 @ js ''inline-block px-3 py-2 rounded-xl bg-blue-600 text-white'' @ [0x22]
                 @ js ''>'' @ (trim (userInput_value s)) @ js ''</span>''\<rparr>,
            \<lparr>className = js ''text-left my-1'',
               innerHTML = js ''<span class='' @ [0x22]
                 @ js ''inline-block px-3 py-2 rounded-xl bg-gray-300 text-black'' @ [0x22]
                 @ js ''>'' @ CHAT_PLACEHOLDER @ js ''</span>''\<rparr>]"
proof -
  have hello: "shown_text (Resolved \<lparr>status = code,
         json_body = Resolved (JObj [(js ''reply'', JStr (js ''Hello''))])\<rparr>) = js ''Hello''"
    by (rule shown_text_string [where kvs = "[(js ''reply'', JStr (js ''Hello''))]"]) simp_all
  have absent: "shown_text (Resolved \<lparr>status = code, json_body = Resolved (JObj [])\<rparr>) = CHAT_PLACEHOLDER"
    by (rule shown_text_falsy [where kvs = "[]"]) simp_all
  show ?thesis
    unfolding chatbox_click [OF assms] hello absent by simp
qed

theorem chat_reply_hello_and_absent_witness:
  "chatbox (sendBtn_click
            (Resolved \<lparr>status = 200,
                       json_body = Resolved (JObj [(js ''reply'', JStr (js ''Hello''))])\<rparr>)
            (page_init\<lparr>userInput_value := js '' hi ''\<rparr>))
         = [\<lparr>className = js ''text-right my-1'',
               innerHTML = js ''<span class='' @ [0x22]
                 @ js ''inline-block px-3 py-2 rounded-xl bg-blue-600 text-white'' @ [0x22]
                 @ js ''>'' @ (js ''hi'') @ js ''</span>''\<rparr>,
            \<lparr>className = js ''text-left my-1'',
             innerHTML = js ''<span class='' @ [0x22]
               @ js ''inline-block px-3 py-2 rounded-xl bg-gray-300 text-black'' @ [0x22]
               @ js ''>Hello</span>''\<rparr>]"
  using chat_reply_hello_and_absent [OF hi_not_blank, of 200]
  unfolding trim_hi fresh_page append_Nil by (simp add: js_def)

text \<open>
  C10. A response whose reply field is present but is the empty string gives an agent
  entry with the fixed placeholder text, not an empty entry: the placeholder stands in
  for every falsy reply, not only for an absent one.
\<close>

theorem chat_empty_reply_gives_placeholder:
  assumes "trim (userInput_value s) \<noteq> []"
    and "map_of kvs (js ''reply'') = Some v"
    and "v = JStr [] \<or> \<not> truthy v"
  shows "chatbox (sendBtn_click (Resolved \<lparr>status = code, json_body = Resolved (JObj kvs)\<rparr>) s)
         = chatbox s @
           [\<lparr>className = js ''text-right my-1'',
               innerHTML = js ''<span class='' @ [0x22]
                 @ js ''inline-block px-3 py-2 rounded-xl bg-blue-600 text-white'' @ [0x22]
                 @ js ''>'' @ (trim (userInput_value s)) @ js ''</span>''\<rparr>,
            \<lparr>className = js ''text-left my-1'',
               innerHTML = js ''<span class='' @ [0x22]
                 @ js ''inline-block px-3 py-2 rounded-xl bg-gray-300 text-black'' @ [0x22]
                 @ js ''>'' @ CHAT_PLACEHOLDER @ js ''</span>''\<rparr>]
       \<and> \<lparr>className = js ''text-left my-1'',
            innerHTML = js ''<span class='' @ [0x22]
              @ js ''inline-block px-3 py-2 rounded-xl bg-gray-300 text-black'' @ [0x22]
              @ js ''>'' @ CHAT_PLACEHOLDER @ js ''</span>''\<rparr>
         \<noteq> \<lparr>className = js ''text-left my-1'',
              innerHTML = js ''<span class='' @ [0x22]
                @ js ''inline-block px-3 py-2 rounded-xl bg-gray-300 text-black'' @ [0x22]
                @ js ''>'' @ [] @ js ''</span>''\<rparr>"
proof -
  have falsy: "\<not> truthy v"
    using assms(3) by auto
  have "shown_text (Resolved \<lparr>status = code, json_body = Resolved (JObj kvs)\<rparr>) = CHAT_PLACEHOLDER"
    by (rule shown_text_falsy [where kvs = kvs]) (use assms(2) falsy in auto)
  then have "chatbox (sendBtn_click (Resolved \<lparr>status = code, json_body = Resolved (JObj kvs)\<rparr>) s)
         = chatbox s @
           [\<lparr>className = js ''text-right my-1'',
               innerHTML = js ''<span class='' @ [0x22]
                 @ js ''inline-block px-3 py-2 rounded-xl bg-blue-600 text-white'' @ [0x22]
                 @ js ''>'' @ (trim (userInput_value s)) @ js ''</span>''\<rparr>,
            \<lparr>className = js ''text-left my-1'',
               innerHTML = js ''<span class='' @ [0x22]
                 @ js ''inline-block px-3 py-2 rounded-xl bg-gray-300 text-black'' @ [0x22]
                 @ js ''>'' @ CHAT_PLACEHOLDER @ js ''</span>''\<rparr>]"
    unfolding chatbox_click [OF assms(1)] by simp
  moreover have "CHAT_PLACEHOLDER \<noteq> []"
    by (simp add: CHAT_PLACEHOLDER_def)
  ultimately show ?thesis
    by simp
qed

theorem chat_empty_reply_gives_placeholder_witness:
  "chatbox (sendBtn_click
      (Resolved \<lparr>status = 200, json_body = Resolved (JObj [(js ''reply'', JStr [])])\<rparr>)
      (page_init\<lparr>userInput_value := js '' hi ''\<rparr>))
   = [\<lparr>className = js ''text-right my-1'',
         innerHTML = js ''<span class='' @ [0x22]
           @ js ''inline-block px-3 py-2 rounded-xl bg-blue-600 text-white'' @ [0x22]
           @ js ''>'' @ (js ''hi'') @ js ''</span>''\<rparr>,
      \<lparr>className = js ''text-left my-1'',
         innerHTML = js ''<span class='' @ [0x22]
           @ js ''inline-block px-3 py-2 rounded-xl bg-gray-300 text-black'' @ [0x22]
           @ js ''>'' @ CHAT_PLACEHOLDER @ js ''</span>''\<rparr>]"
proof -
  have look: "map_of [(js ''reply'', JStr [])] (js ''reply'') = Some (JStr [])"
    by simp
  show ?thesis
    using chat_empty_reply_gives_placeholder [OF hi_not_blank look, of 200]
    unfolding trim_hi fresh_page append_Nil by simp
qed

text \<open>
  C6. When the chat input is empty or consists of whitespace only, so that nothing is
  left after trimming, the send action changes nothing: no entry is appended to the
  transcript and no request is issued.
\<close>

theorem send_blank_input_is_noop:
  assumes "\<forall>c\<in>set (userInput_value s). WhiteSpace c"
  shows "sendBtn_click r s = s
       \<and> chatbox (sendBtn_click r s) = chatbox s
       \<and> requests (sendBtn_click r s) = requests s"
proof -
  have "trim (userInput_value s) = []"
    using assms by (simp add: trim_empty_iff)
  then show ?thesis
    by (simp add: sendBtn_click_def)
qed

theorem send_blank_input_is_noop_witness:
  "sendBtn_click (Resolved \<lparr>status = 200, json_body = Resolved (JObj [])\<rparr>)
       (page_init\<lparr>userInput_value := [0x20, 0x9, 0xA0, 0xA]\<rparr>)
     = page_init\<lparr>userInput_value := [0x20, 0x9, 0xA0, 0xA]\<rparr>"
proof -
  have "\<forall>c\<in>set (userInput_value (page_init\<lparr>userInput_value := [0x20, 0x9, 0xA0, 0xA]\<rparr>)).
          WhiteSpace c"
    by (simp add: WhiteSpace_def)
  from send_blank_input_is_noop [OF this] show ?thesis
    by simp
qed




text \<open>
  C3, as amended. A send (of an input that is not empty after trimming) whose request
  fails with a network error, or whose response body is not JSON or is \<open>null\<close>, or
  whose reply is an object with a \<open>toString\<close> key, which cannot be converted to text,
  appends the fixed error message after the user's entry and no reply-derived entry,
  whatever the status code. Every send issues exactly one request, so nothing is retried.
  The status code is never read: two responses with the same body are treated alike, so
  that a response of any status whose body is a JSON object is handled as a success: a
  reply that is a non-empty string is appended as the agent's entry, and an absent reply
  gives the placeholder.
\<close>

theorem chat_failure_appends_error_no_retry:
  assumes "trim (userInput_value s) \<noteq> []"
  shows "chatbox (sendBtn_click Rejected s) = chatbox s @
         [\<lparr>className = js ''text-right my-1'',
            innerHTML = js ''<span class='' @ [0x22]
              @ js ''inline-block px-3 py-2 rounded-xl bg-blue-600 text-white'' @ [0x22]
              @ js ''>'' @ (trim (userInput_value s)) @ js ''</span>''\<rparr>,
          \<lparr>className = js ''text-left my-1'',
            innerHTML = js ''<span class='' @ [0x22]
              @ js ''inline-block px-3 py-2 rounded-xl bg-gray-300 text-black'' @ [0x22]
              @ js ''>'' @ ([0x26A0, 0xFE0F] @ js '' Error connecting to server'') @ js ''</span>''\<rparr>]
          \<and> (json_body res1 = Rejected \<or> json_body res1 = Resolved JNull \<longrightarrow>
            chatbox (sendBtn_click (Resolved res1) s) = chatbox s @
            [\<lparr>className = js ''text-right my-1'',
               innerHTML = js ''<span class='' @ [0x22]
                 @ js ''inline-block px-3 py-2 rounded-xl bg-blue-600 text-white'' @ [0x22]
                 @ js ''>'' @ (trim (userInput_value s)) @ js ''</span>''\<rparr>,
             \<lparr>className = js ''text-left my-1'',
               innerHTML = js ''<span class='' @ [0x22]
                 @ js ''inline-block px-3 py-2 rounded-xl bg-gray-300 text-black'' @ [0x22]
                 @ js ''>'' @ ([0x26A0, 0xFE0F] @ js '' Error connecting to server'') @ js ''</span>''\<rparr>])
          \<and> (json_body res4 = Resolved (JObj kvs4) \<and> map_of kvs4 (js ''reply'') = Some (JObj kvs4')
            \<and> map_of kvs4' (js ''toString'') = Some x4 \<longrightarrow>
            chatbox (sendBtn_click (Resolved res4) s) = chatbox s @
            [\<lparr>className = js ''text-right my-1'',
               innerHTML = js ''<span class='' @ [0x22]
                 @ js ''inline-block px-3 py-2 rounded-xl bg-blue-600 text-white'' @ [0x22]
                 @ js ''>'' @ (trim (userInput_value s)) @ js ''</span>''\<rparr>,
             \<lparr>className = js ''text-left my-1'',
               innerHTML = js ''<span class='' @ [0x22]
                 @ js ''inline-block px-3 py-2 rounded-xl bg-gray-300 text-black'' @ [0x22]
                 @ js ''>'' @ ([0x26A0, 0xFE0F] @ js '' Error connecting to server'') @ js ''</span>''\<rparr>])
          \<and> requests (sendBtn_click r s) = requests s @
         [\<lparr>req_url = js ''/chat'', req_method = js ''POST'',
            req_headers = [(js ''Content-Type'', js ''application/json'')],
            req_body = JObj [(js ''message'', JStr (trim (userInput_value s)))]\<rparr>]
          \<and> (json_body res5 = json_body res5' \<longrightarrow>
            sendBtn_click (Resolved res5) s = sendBtn_click (Resolved res5') s)
          \<and> (json_body res2 = Resolved (JObj kvs2) \<and> map_of kvs2 (js ''reply'') = Some (JStr t2) \<and> t2 \<noteq> [] \<longrightarrow>
            chatbox (sendBtn_click (Resolved res2) s) = chatbox s @
            [\<lparr>className = js ''text-right my-1'',
               innerHTML = js ''<span class='' @ [0x22]
                 @ js ''inline-block px-3 py-2 rounded-xl bg-blue-600 text-white'' @ [0x22]
                 @ js ''>'' @ (trim (userInput_value s)) @ js ''</span>''\<rparr>,
             \<lparr>className = js ''text-left my-1'',
               innerHTML = js ''<span class='' @ [0x22]
                 @ js ''inline-block px-3 py-2 rounded-xl bg-gray-300 text-black'' @ [0x22]
                 @ js ''>'' @ t2 @ js ''</span>''\<rparr>])
          \<and> (json_body res3 = Resolved (JObj kvs3) \<and> map_of kvs3 (js ''reply'') = None \<longrightarrow>
            chatbox (sendBtn_click (Resolved res3) s) = chatbox s @
            [\<lparr>className = js ''text-right my-1'',
               innerHTML = js ''<span class='' @ [0x22]
                 @ js ''inline-block px-3 py-2 rounded-xl bg-blue-600 text-white'' @ [0x22]
                 @ js ''>'' @ (trim (userInput_value s)) @ js ''</span>''\<rparr>,
             \<lparr>className = js ''text-left my-1'',
               innerHTML = js ''<span class='' @ [0x22]
                 @ js ''inline-block px-3 py-2 rounded-xl bg-gray-300 text-black'' @ [0x22]
                 @ js ''>'' @ (js ''Hmm... I'' @ [0x2019] @ js ''m thinking!'') @ js ''</span>''\<rparr>])"
proof -
  have net: "chatbox (sendBtn_click Rejected s) = chatbox s @
             [\<lparr>className = js ''text-right my-1'',
                innerHTML = js ''<span class='' @ [0x22]
                  @ js ''inline-block px-3 py-2 rounded-xl bg-blue-600 text-white'' @ [0x22]
                  @ js ''>'' @ (trim (userInput_value s)) @ js ''</span>''\<rparr>,
              \<lparr>className = js ''text-left my-1'',
                innerHTML = js ''<span class='' @ [0x22]
                  @ js ''inline-block px-3 py-2 rounded-xl bg-gray-300 text-black'' @ [0x22]
                  @ js ''>'' @ ([0x26A0, 0xFE0F] @ js '' Error connecting to server'') @ js ''</span>''\<rparr>]"
    unfolding chatbox_click [OF assms] shown_text_rejected CHAT_ERROR_def by (rule refl)
  have bad: "(json_body res1 = Rejected \<or> json_body res1 = Resolved JNull \<longrightarrow>
                chatbox (sendBtn_click (Resolved res1) s) = chatbox s @
                [\<lparr>className = js ''text-right my-1'',
                   innerHTML = js ''<span class='' @ [0x22]
                     @ js ''inline-block px-3 py-2 rounded-xl bg-blue-600 text-white'' @ [0x22]
                     @ js ''>'' @ (trim (userInput_value s)) @ js ''</span>''\<rparr>,
                 \<lparr>className = js ''text-left my-1'',
                   innerHTML = js ''<span class='' @ [0x22]
                     @ js ''inline-block px-3 py-2 rounded-xl bg-gray-300 text-black'' @ [0x22]
                     @ js ''>'' @ ([0x26A0, 0xFE0F] @ js '' Error connecting to server'') @ js ''</span>''\<rparr>])"
    unfolding chatbox_click [OF assms] CHAT_ERROR_def [symmetric]
    by (simp add: shown_text_bad_body)
  have unr: "(json_body res4 = Resolved (JObj kvs4) \<and> map_of kvs4 (js ''reply'') = Some (JObj kvs4')
                \<and> map_of kvs4' (js ''toString'') = Some x4 \<longrightarrow>
                chatbox (sendBtn_click (Resolved res4) s) = chatbox s @
                [\<lparr>className = js ''text-right my-1'',
                   innerHTML = js ''<span class='' @ [0x22]
                     @ js ''inline-block px-3 py-2 rounded-xl bg-blue-600 text-white'' @ [0x22]
                     @ js ''>'' @ (trim (userInput_value s)) @ js ''</span>''\<rparr>,
                 \<lparr>className = js ''text-left my-1'',
                   innerHTML = js ''<span class='' @ [0x22]
                     @ js ''inline-block px-3 py-2 rounded-xl bg-gray-300 text-black'' @ [0x22]
                     @ js ''>'' @ ([0x26A0, 0xFE0F] @ js '' Error connecting to server'') @ js ''</span>''\<rparr>])"
    unfolding chatbox_click [OF assms] CHAT_ERROR_def [symmetric]
    by (auto simp: shown_text_unrenderable)
  have req: "requests (sendBtn_click r s) = requests s @
             [\<lparr>req_url = js ''/chat'', req_method = js ''POST'',
                req_headers = [(js ''Content-Type'', js ''application/json'')],
                req_body = JObj [(js ''message'', JStr (trim (userInput_value s)))]\<rparr>]"
    using assms by (rule requests_click)
  have stat: "(json_body res5 = json_body res5' \<longrightarrow>
                 sendBtn_click (Resolved res5) s = sendBtn_click (Resolved res5') s)"
    by (rule impI) (rule sendBtn_click_status)
  have str: "(json_body res2 = Resolved (JObj kvs2) \<and> map_of kvs2 (js ''reply'') = Some (JStr t2) \<and> t2 \<noteq> [] \<longrightarrow>
                chatbox (sendBtn_click (Resolved res2) s) = chatbox s @
                [\<lparr>className = js ''text-right my-1'',
                   innerHTML = js ''<span class='' @ [0x22]
                     @ js ''inline-block px-3 py-2 rounded-xl bg-blue-600 text-white'' @ [0x22]
                     @ js ''>'' @ (trim (userInput_value s)) @ js ''</span>''\<rparr>,
                 \<lparr>className = js ''text-left my-1'',
                   innerHTML = js ''<span class='' @ [0x22]
                     @ js ''inline-block px-3 py-2 rounded-xl bg-gray-300 text-black'' @ [0x22]
                     @ js ''>'' @ t2 @ js ''</span>''\<rparr>])"
    unfolding chatbox_click [OF assms]
    by (auto simp: shown_text_string)
  have abs: "(json_body res3 = Resolved (JObj kvs3) \<and> map_of kvs3 (js ''reply'') = None \<longrightarrow>
                chatbox (sendBtn_click (Resolved res3) s) = chatbox s @
                [\<lparr>className = js ''text-right my-1'',
                   innerHTML = js ''<span class='' @ [0x22]
                     @ js ''inline-block px-3 py-2 rounded-xl bg-blue-600 text-white'' @ [0x22]
                     @ js ''>'' @ (trim (userInput_value s)) @ js ''</span>''\<rparr>,
                 \<lparr>className = js ''text-left my-1'',
                   innerHTML = js ''<span class='' @ [0x22]
                     @ js ''inline-block px-3 py-2 rounded-xl bg-gray-300 text-black'' @ [0x22]
                     @ js ''>'' @ (js ''Hmm... I'' @ [0x2019] @ js ''m thinking!'') @ js ''</span>''\<rparr>])"
    unfolding chatbox_click [OF assms] CHAT_PLACEHOLDER_def [symmetric]
    by (auto simp: shown_text_falsy)
  show ?thesis
    by (intro conjI net bad unr req stat str abs)
qed

theorem chat_failure_appends_error_no_retry_witness:
  "chatbox (sendBtn_click Rejected (page_init\<lparr>userInput_value := js '' hi ''\<rparr>)) =
   [\<lparr>className = js ''text-right my-1'',
      innerHTML = js ''<span class='' @ [0x22]
        @ js ''inline-block px-3 py-2 rounded-xl bg-blue-600 text-white'' @ [0x22]
        @ js ''>'' @ (js ''hi'') @ js ''</span>''\<rparr>,
    \<lparr>className = js ''text-left my-1'',
      innerHTML = js ''<span class='' @ [0x22]
        @ js ''inline-block px-3 py-2 rounded-xl bg-gray-300 text-black'' @ [0x22]
        @ js ''>'' @ ([0x26A0, 0xFE0F] @ js '' Error connecting to server'') @ js ''</span>''\<rparr>]
    \<and> chatbox (sendBtn_click (Resolved \<lparr>status = 502, json_body = Rejected\<rparr>) (page_init\<lparr>userInput_value := js '' hi ''\<rparr>)) =
   [\<lparr>className = js ''text-right my-1'',
      innerHTML = js ''<span class='' @ [0x22]
        @ js ''inline-block px-3 py-2 rounded-xl bg-blue-600 text-white'' @ [0x22]
        @ js ''>'' @ (js ''hi'') @ js ''</span>''\<rparr>,
    \<lparr>className = js ''text-left my-1'',
      innerHTML = js ''<span class='' @ [0x22]
        @ js ''inline-block px-3 py-2 rounded-xl bg-gray-300 text-black'' @ [0x22]
        @ js ''>'' @ ([0x26A0, 0xFE0F] @ js '' Error connecting to server'') @ js ''</span>''\<rparr>]
    \<and> chatbox (sendBtn_click (Resolved \<lparr>status = 500, json_body = Resolved (JObj [(js ''reply'', JObj [(js ''toString'', JStr (js ''x''))])])\<rparr>) (page_init\<lparr>userInput_value := js '' hi ''\<rparr>)) =
   [\<lparr>className = js ''text-right my-1'',
      innerHTML = js ''<span class='' @ [0x22]
        @ js ''inline-block px-3 py-2 rounded-xl bg-blue-600 text-white'' @ [0x22]
        @ js ''>'' @ (js ''hi'') @ js ''</span>''\<rparr>,
    \<lparr>className = js ''text-left my-1'',
      innerHTML = js ''<span class='' @ [0x22]
        @ js ''inline-block px-3 py-2 rounded-xl bg-gray-300 text-black'' @ [0x22]
        @ js ''>'' @ ([0x26A0, 0xFE0F] @ js '' Error connecting to server'') @ js ''</span>''\<rparr>]
    \<and> requests (sendBtn_click Rejected (page_init\<lparr>userInput_value := js '' hi ''\<rparr>)) =
   [\<lparr>req_url = js ''/chat'', req_method = js ''POST'',
      req_headers = [(js ''Content-Type'', js ''application/json'')],
      req_body = JObj [(js ''message'', JStr (js ''hi''))]\<rparr>]
    \<and> sendBtn_click (Resolved \<lparr>status = 502, json_body = Resolved (JObj [(js ''reply'', JStr (js ''Hi!''))])\<rparr>) (page_init\<lparr>userInput_value := js '' hi ''\<rparr>)
    = sendBtn_click (Resolved \<lparr>status = 200, json_body = Resolved (JObj [(js ''reply'', JStr (js ''Hi!''))])\<rparr>) (page_init\<lparr>userInput_value := js '' hi ''\<rparr>)
    \<and> chatbox (sendBtn_click (Resolved \<lparr>status = 503, json_body = Resolved (JObj [(js ''reply'', JStr (js ''Oops''))])\<rparr>) (page_init\<lparr>userInput_value := js '' hi ''\<rparr>)) =
   [\<lparr>className = js ''text-right my-1'',
      innerHTML = js ''<span class='' @ [0x22]
        @ js ''inline-block px-3 py-2 rounded-xl bg-blue-600 text-white'' @ [0x22]
        @ js ''>'' @ (js ''hi'') @ js ''</span>''\<rparr>,
    \<lparr>className = js ''text-left my-1'',
      innerHTML = js ''<span class='' @ [0x22]
        @ js ''inline-block px-3 py-2 rounded-xl bg-gray-300 text-black'' @ [0x22]
        @ js ''>'' @ js ''Oops'' @ js ''</span>''\<rparr>]
    \<and> chatbox (sendBtn_click (Resolved \<lparr>status = 500, json_body = Resolved (JObj [(js ''detail'', JStr (js ''Internal Server Error''))])\<rparr>) (page_init\<lparr>userInput_value := js '' hi ''\<rparr>)) =
   [\<lparr>className = js ''text-right my-1'',
      innerHTML = js ''<span class='' @ [0x22]
        @ js ''inline-block px-3 py-2 rounded-xl bg-blue-600 text-white'' @ [0x22]
        @ js ''>'' @ (js ''hi'') @ js ''</span>''\<rparr>,
    \<lparr>className = js ''text-left my-1'',
      innerHTML = js ''<span class='' @ [0x22]
        @ js ''inline-block px-3 py-2 rounded-xl bg-gray-300 text-black'' @ [0x22]
        @ js ''>'' @ (js ''Hmm... I'' @ [0x2019] @ js ''m thinking!'') @ js ''</span>''\<rparr>]"
proof -
  have h1: "json_body \<lparr>status = 502, json_body = Rejected\<rparr> = Rejected
      \<or> json_body \<lparr>status = 502, json_body = Rejected\<rparr> = Resolved JNull"
    by simp
  have h4: "json_body \<lparr>status = 500, json_body = Resolved (JObj [(js ''reply'', JObj [(js ''toString'', JStr (js ''x''))])])\<rparr>
        = Resolved (JObj [(js ''reply'', JObj [(js ''toString'', JStr (js ''x''))])])
      \<and> map_of [(js ''reply'', JObj [(js ''toString'', JStr (js ''x''))])] (js ''reply'')
        = Some (JObj [(js ''toString'', JStr (js ''x''))])
      \<and> map_of [(js ''toString'', JStr (js ''x''))] (js ''toString'') = Some (JStr (js ''x''))"
    by simp
  have h5: "json_body \<lparr>status = 502, json_body = Resolved (JObj [(js ''reply'', JStr (js ''Hi!''))])\<rparr>
      = json_body \<lparr>status = 200, json_body = Resolved (JObj [(js ''reply'', JStr (js ''Hi!''))])\<rparr>"
    by simp
  have h2: "json_body \<lparr>status = 503, json_body = Resolved (JObj [(js ''reply'', JStr (js ''Oops''))])\<rparr>
        = Resolved (JObj [(js ''reply'', JStr (js ''Oops''))])
      \<and> map_of [(js ''reply'', JStr (js ''Oops''))] (js ''reply'') = Some (JStr (js ''Oops''))
      \<and> js ''Oops'' \<noteq> []"
    by simp
  have h3: "json_body \<lparr>status = 500, json_body = Resolved (JObj [(js ''detail'', JStr (js ''Internal Server Error''))])\<rparr>
        = Resolved (JObj [(js ''detail'', JStr (js ''Internal Server Error''))])
      \<and> map_of [(js ''detail'', JStr (js ''Internal Server Error''))] (js ''reply'') = None"
    by (simp add: js_def)
  show ?thesis
    using chat_failure_appends_error_no_retry
      [OF hi_not_blank,
        where ?res1.0 = "\<lparr>status = 502, json_body = Rejected\<rparr>"
          and ?res4.0 = "\<lparr>status = 500, json_body = Resolved (JObj [(js ''reply'', JObj [(js ''toString'', JStr (js ''x''))])])\<rparr>"
          and ?kvs4.0 = "[(js ''reply'', JObj [(js ''toString'', JStr (js ''x''))])]"
          and ?kvs4' = "[(js ''toString'', JStr (js ''x''))]" and ?x4.0 = "JStr (js ''x'')"
          and ?res5.0 = "\<lparr>status = 502, json_body = Resolved (JObj [(js ''reply'', JStr (js ''Hi!''))])\<rparr>"
          and ?res5' = "\<lparr>status = 200, json_body = Resolved (JObj [(js ''reply'', JStr (js ''Hi!''))])\<rparr>"
          and ?res2.0 = "\<lparr>status = 503, json_body = Resolved (JObj [(js ''reply'', JStr (js ''Oops''))])\<rparr>"
          and ?kvs2.0 = "[(js ''reply'', JStr (js ''Oops''))]" and ?t2.0 = "js ''Oops''"
          and ?res3.0 = "\<lparr>status = 500, json_body = Resolved (JObj [(js ''detail'', JStr (js ''Internal Server Error''))])\<rparr>"
          and ?kvs3.0 = "[(js ''detail'', JStr (js ''Internal Server Error''))]"
          and r = Rejected]
      h1 h2 h3 h4 h5
    unfolding trim_hi fresh_page append_Nil by blast
qed

text \<open>
  C3, as stated, fails: a response with status 500 and a JSON body without a reply field
  appends the placeholder entry, not the error message, and a response with status 500
  whose body has a reply field appends that reply.
\<close>

theorem chat_non_success_status_counterexample:
  "chatbox (sendBtn_click (Resolved \<lparr>status = 500, json_body = Resolved (JObj [(js ''detail'', JStr (js ''Internal Server Error''))])\<rparr>) (page_init\<lparr>userInput_value := js '' hi ''\<rparr>)) =
   [\<lparr>className = js ''text-right my-1'',
      innerHTML = js ''<span class='' @ [0x22]
        @ js ''inline-block px-3 py-2 rounded-xl bg-blue-600 text-white'' @ [0x22]
        @ js ''>'' @ (js ''hi'') @ js ''</span>''\<rparr>,
    \<lparr>className = js ''text-left my-1'',
      innerHTML = js ''<span class='' @ [0x22]
        @ js ''inline-block px-3 py-2 rounded-xl bg-gray-300 text-black'' @ [0x22]
        @ js ''>'' @ (js ''Hmm... I'' @ [0x2019] @ js ''m thinking!'') @ js ''</span>''\<rparr>]
   \<and> \<lparr>className = js ''text-left my-1'',
        innerHTML = js ''<span class='' @ [0x22]
          @ js ''inline-block px-3 py-2 rounded-xl bg-gray-300 text-black'' @ [0x22]
          @ js ''>'' @ (js ''Hmm... I'' @ [0x2019] @ js ''m thinking!'') @ js ''</span>''\<rparr>
     \<noteq> \<lparr>className = js ''text-left my-1'',
          innerHTML = js ''<span class='' @ [0x22]
            @ js ''inline-block px-3 py-2 rounded-xl bg-gray-300 text-black'' @ [0x22]
            @ js ''>'' @ ([0x26A0, 0xFE0F] @ js '' Error connecting to server'') @ js ''</span>''\<rparr>
   \<and> chatbox (sendBtn_click (Resolved \<lparr>status = 500, json_body = Resolved (JObj [(js ''reply'', JStr (js ''Oops''))])\<rparr>) (page_init\<lparr>userInput_value := js '' hi ''\<rparr>)) =
     [\<lparr>className = js ''text-right my-1'',
        innerHTML = js ''<span class='' @ [0x22]
          @ js ''inline-block px-3 py-2 rounded-xl bg-blue-600 text-white'' @ [0x22]
          @ js ''>'' @ (js ''hi'') @ js ''</span>''\<rparr>,
      \<lparr>className = js ''text-left my-1'',
        innerHTML = js ''<span class='' @ [0x22]
          @ js ''inline-block px-3 py-2 rounded-xl bg-gray-300 text-black'' @ [0x22]
          @ js ''>'' @ js ''Oops'' @ js ''</span>''\<rparr>]"
proof -
  have "shown_text (Resolved \<lparr>status = 500, json_body = Resolved (JObj [(js ''detail'', JStr (js ''Internal Server Error''))])\<rparr>) = CHAT_PLACEHOLDER"
    by (rule shown_text_falsy [where kvs = "[(js ''detail'', JStr (js ''Internal Server Error''))]"])
      (simp_all add: js_def)
  then have p1: "chatbox (sendBtn_click (Resolved \<lparr>status = 500, json_body = Resolved (JObj [(js ''detail'', JStr (js ''Internal Server Error''))])\<rparr>) (page_init\<lparr>userInput_value := js '' hi ''\<rparr>)) =
              [\<lparr>className = js ''text-right my-1'',
                 innerHTML = js ''<span class='' @ [0x22]
                   @ js ''inline-block px-3 py-2 rounded-xl bg-blue-600 text-white'' @ [0x22]
                   @ js ''>'' @ (js ''hi'') @ js ''</span>''\<rparr>,
               \<lparr>className = js ''text-left my-1'',
                 innerHTML = js ''<span class='' @ [0x22]
                   @ js ''inline-block px-3 py-2 rounded-xl bg-gray-300 text-black'' @ [0x22]
                   @ js ''>'' @ (js ''Hmm... I'' @ [0x2019] @ js ''m thinking!'') @ js ''</span>''\<rparr>]"
    unfolding chatbox_click [OF hi_not_blank] trim_hi fresh_page append_Nil CHAT_PLACEHOLDER_def
    by simp
  have "shown_text (Resolved \<lparr>status = 500, json_body = Resolved (JObj [(js ''reply'', JStr (js ''Oops''))])\<rparr>)
      = js ''Oops''"
    by (rule shown_text_string [where kvs = "[(js ''reply'', JStr (js ''Oops''))]"]) simp_all
  then have p2: "chatbox (sendBtn_click (Resolved \<lparr>status = 500, json_body = Resolved (JObj [(js ''reply'', JStr (js ''Oops''))])\<rparr>) (page_init\<lparr>userInput_value := js '' hi ''\<rparr>)) =
              [\<lparr>className = js ''text-right my-1'',
                 innerHTML = js ''<span class='' @ [0x22]
                   @ js ''inline-block px-3 py-2 rounded-xl bg-blue-600 text-white'' @ [0x22]
                   @ js ''>'' @ (js ''hi'') @ js ''</span>''\<rparr>,
               \<lparr>className = js ''text-left my-1'',
                 innerHTML = js ''<span class='' @ [0x22]
                   @ js ''inline-block px-3 py-2 rounded-xl bg-gray-300 text-black'' @ [0x22]
                   @ js ''>'' @ js ''Oops'' @ js ''</span>''\<rparr>]"
    unfolding chatbox_click [OF hi_not_blank] trim_hi fresh_page append_Nil
    by simp
  have d: "(js ''Hmm... I'' @ [0x2019] @ js ''m thinking!'') \<noteq> ([0x26A0, 0xFE0F] @ js '' Error connecting to server'')"
    by (simp add: js_def)
  show ?thesis
    using p1 p2 d by simp
qed

section \<open>The notification button: properties\<close>

text \<open>
  C9, as amended. When the permission is granted and the token request fails, the
  failure is written to the console with the fixed text \<open>Error enabling notifications:\<close>
  and no alert is shown.
\<close>

theorem token_failure_logged_not_alerted: "notify_btn_click (Resolved (js ''granted'')) Rejected s
   = s\<lparr>token_requests := token_requests s + 1,
       console := console s
          @ [ConsoleError (js ''Error enabling notifications:'') (Err TokenRejected)]\<rparr>
  \<and> alerts (notify_btn_click (Resolved (js ''granted'')) Rejected s) = alerts s"
  by (simp add: notify_btn_click_def Let_def)

text \<open>
  C9, as stated, fails: after a granted permission and a failed token request on the
  initial page, no alert has been shown and nothing on the page has changed; the error
  is in the console only.
\<close>

theorem token_failure_no_alert_counterexample:
  "alerts (notify_btn_click (Resolved (js ''granted'')) Rejected page_init) = []
   \<and> chatbox (notify_btn_click (Resolved (js ''granted'')) Rejected page_init) = []
   \<and> callBtn_text (notify_btn_click (Resolved (js ''granted'')) Rejected page_init) = CALL_IDLE
   \<and> console (notify_btn_click (Resolved (js ''granted'')) Rejected page_init)
       = [ConsoleError (js ''Error enabling notifications:'') (Err TokenRejected)]"
  by (simp add: notify_btn_click_def page_init_def Let_def)

section \<open>The background worker: properties\<close>

lemma get_prop_truthy: "truthy v \<Longrightarrow> get_prop v k = Inr (spec_field v k)"
  by (cases v) (simp_all add: spec_field_def)

lemma get_prop_obj: "get_prop (JObj kvs) k = Inr (spec_field (JObj kvs) k)"
  by (simp add: spec_field_def)

lemma truthy_or_empty: "truthy (js_or v (JObj []))"
  by (simp add: js_or_def)

lemma field_or_empty: "spec_field (js_or v (JObj [])) k = spec_field v k"
  by (cases v) (simp_all add: js_or_def spec_field_def)

lemma build_notification_obj:
  "build_notification (JObj kvs) =
     Inr \<lparr>nTitle = spec_preferred (JObj kvs) (js ''title'') DEFAULT_TITLE,
          nBody = spec_preferred (JObj kvs) (js ''body'') DEFAULT_BODY,
          nIcon = spec_preferred (JObj kvs) (js ''icon'') (JStr (js ''/static/flossy-icon.png'')),
          nBadge = js_or (spec_field (spec_field (JObj kvs) (js ''data'')) (js ''badge''))
                     (JStr (js ''/static/flossy-badge.png'')),
          nData = JObj [(js ''url'',
                    js_or (spec_field (spec_field (JObj kvs) (js ''data'')) (js ''url''))
                      (JStr (js ''/'')))]\<rparr>"
  unfolding build_notification_def get_prop_obj and_then_Inr Let_def
    get_prop_truthy [OF truthy_or_empty] field_or_empty
  by (simp add: spec_preferred_def js_or_def)

lemma focus_existing_find:
  "focus_existing n cs =
     map_option (\<lambda>c. (if truthy (notification_url n)
                       then [ClientNavigate (client_id c) (notification_url n)] else [])
                      @ [ClientFocus (client_id c)])
       (find has_focus cs)"
  by (induction cs) simp_all

lemma onBackgroundMessage_obj:
  "onBackgroundMessage (JObj kvs) w =
     Inr (w\<lparr>sw_console := sw_console w @ [ConsoleLog SW_RECEIVED (Val (JObj kvs))],
            shown := shown w @
              [\<lparr>nTitle = spec_preferred (JObj kvs) (js ''title'') DEFAULT_TITLE,
                nBody = spec_preferred (JObj kvs) (js ''body'') DEFAULT_BODY,
                nIcon = spec_preferred (JObj kvs) (js ''icon'') (JStr (js ''/static/flossy-icon.png'')),
                nBadge = js_or (spec_field (spec_field (JObj kvs) (js ''data'')) (js ''badge''))
                           (JStr (js ''/static/flossy-badge.png'')),
                nData = JObj [(js ''url'',
                          js_or (spec_field (spec_field (JObj kvs) (js ''data'')) (js ''url''))
                            (JStr (js ''/'')))]\<rparr>]\<rparr>)"
  by (simp add: onBackgroundMessage_def build_notification_obj Let_def)

lemma preferred_reminder:
  "spec_preferred (JObj [(js ''notification'',
       JObj [(js ''title'', JStr (js ''Reminder'')), (js ''body'', JStr (js ''Brush your teeth''))])])
     (js ''title'') d = JStr (js ''Reminder'')"
  "spec_preferred (JObj [(js ''notification'',
       JObj [(js ''title'', JStr (js ''Reminder'')), (js ''body'', JStr (js ''Brush your teeth''))])])
     (js ''body'') d = JStr (js ''Brush your teeth'')"
  by (simp_all add: spec_preferred_def spec_field_def js_def)

lemma preferred_data_title:
  "spec_preferred (JObj [(js ''data'', JObj [(js ''title'', JStr (js ''T''))])]) (js ''title'') d
     = JStr (js ''T'')"
  "spec_preferred (JObj [(js ''data'', JObj [(js ''title'', JStr (js ''T''))])]) (js ''body'') d
     = d"
  by (simp_all add: spec_preferred_def spec_field_def js_def)

text \<open>
  C7. For every payload object the handler shows one notification whose title and body are
  the field of the payload's \<open>notification\<close>, else the field of its \<open>data\<close>, else the
  fixed default. The payload \<open>{"notification": {"title": "Reminder", "body": "Brush your
  teeth"}}\<close> gives the title \<open>Reminder\<close> and the body \<open>Brush your teeth\<close>; the
  payload \<open>{"data": {"title": "T"}}\<close> gives the title \<open>T\<close> and the default body.
\<close>

theorem push_title_and_body_preferred:
  "(\<exists>n. onBackgroundMessage (JObj kvs) w =
          Inr (w\<lparr>sw_console := sw_console w @ [ConsoleLog SW_RECEIVED (Val (JObj kvs))],
                 shown := shown w @ [n]\<rparr>)
        \<and> nTitle n = spec_preferred (JObj kvs) (js ''title'') DEFAULT_TITLE
        \<and> nBody n = spec_preferred (JObj kvs) (js ''body'') DEFAULT_BODY)
   \<and> (\<exists>n. onBackgroundMessage
          (JObj [(js ''notification'',
             JObj [(js ''title'', JStr (js ''Reminder'')),
                   (js ''body'', JStr (js ''Brush your teeth''))])]) w =
          Inr (w\<lparr>sw_console := sw_console w @ [ConsoleLog SW_RECEIVED
                   (Val (JObj [(js ''notification'',
                      JObj [(js ''title'', JStr (js ''Reminder'')),
                            (js ''body'', JStr (js ''Brush your teeth''))])]))],
                 shown := shown w @ [n]\<rparr>)
        \<and> nTitle n = JStr (js ''Reminder'')
        \<and> nBody n = JStr (js ''Brush your teeth''))
   \<and> (\<exists>n. onBackgroundMessage
          (JObj [(js ''data'', JObj [(js ''title'', JStr (js ''T''))])]) w =
          Inr (w\<lparr>sw_console := sw_console w @ [ConsoleLog SW_RECEIVED
                   (Val (JObj [(js ''data'', JObj [(js ''title'', JStr (js ''T''))])]))],
                 shown := shown w @ [n]\<rparr>)
        \<and> nTitle n = JStr (js ''T'')
        \<and> nBody n = JStr (js ''You have a new message from FlossyAI!''))"
proof (intro conjI)
  show "\<exists>n. onBackgroundMessage (JObj kvs) w =
          Inr (w\<lparr>sw_console := sw_console w @ [ConsoleLog SW_RECEIVED (Val (JObj kvs))],
                 shown := shown w @ [n]\<rparr>)
        \<and> nTitle n = spec_preferred (JObj kvs) (js ''title'') DEFAULT_TITLE
        \<and> nBody n = spec_preferred (JObj kvs) (js ''body'') DEFAULT_BODY"
    unfolding onBackgroundMessage_obj
    by (rule exI, intro conjI, rule refl) simp_all
next
  show "\<exists>n. onBackgroundMessage
          (JObj [(js ''notification'',
             JObj [(js ''title'', JStr (js ''Reminder'')),
                   (js ''body'', JStr (js ''Brush your teeth''))])]) w =
          Inr (w\<lparr>sw_console := sw_console w @ [ConsoleLog SW_RECEIVED
                   (Val (JObj [(js ''notification'',
                      JObj [(js ''title'', JStr (js ''Reminder'')),
                            (js ''body'', JStr (js ''Brush your teeth''))])]))],
                 shown := shown w @ [n]\<rparr>)
        \<and> nTitle n = JStr (js ''Reminder'')
        \<and> nBody n = JStr (js ''Brush your teeth'')"
    unfolding onBackgroundMessage_obj preferred_reminder
    by (rule exI, intro conjI, rule refl) simp_all
next
  show "\<exists>n. onBackgroundMessage
          (JObj [(js ''data'', JObj [(js ''title'', JStr (js ''T''))])]) w =
          Inr (w\<lparr>sw_console := sw_console w @ [ConsoleLog SW_RECEIVED
                   (Val (JObj [(js ''data'', JObj [(js ''title'', JStr (js ''T''))])]))],
                 shown := shown w @ [n]\<rparr>)
        \<and> nTitle n = JStr (js ''T'')
        \<and> nBody n = JStr (js ''You have a new message from FlossyAI!'')"
    unfolding onBackgroundMessage_obj preferred_data_title DEFAULT_BODY_def
    by (rule exI, intro conjI, rule refl) simp_all
qed

lemma notification_url_built:
  "notification_url \<lparr>nTitle = t, nBody = b, nIcon = i, nBadge = g,
      nData = JObj [(js ''url'', u)]\<rparr> = u"
  by (simp add: notification_url_def)

lemma truthy_url_or_root: "truthy (js_or u (JStr (js ''/'')))"
  by (simp add: js_or_def js_def)

lemma sw_actions_click:
  "sw_actions (notificationclick env n w) = sw_actions w @ NotificationClose #
     (case find has_focus (clientList env) of
        Some c \<Rightarrow> (if truthy (notification_url n)
                    then [ClientNavigate (client_id c) (notification_url n)] else [])
                   @ [ClientFocus (client_id c)]
      | None \<Rightarrow> if openWindow_defined env \<and> truthy (notification_url n)
                then [OpenWindow (notification_url n)] else [])"
  by (simp add: notificationclick_def Let_def focus_existing_find split: option.splits)

text \<open>
  C8, as amended. A click on the notification shown for a payload closes it and then
  navigates the first window client that can be focused to the target and focuses it,
  or, when there is no such client and \<open>clients.openWindow\<close> is defined, opens a window
  at the target; when there is neither, nothing more happens. The target is the
  payload's \<open>data.url\<close> when that is there and truthy, and the site root \<open>/\<close> otherwise.
\<close>

theorem notification_click_target:
  "\<exists>n. build_notification (JObj kvs) = Inr n
     \<and> sw_actions (notificationclick env n w) = sw_actions w @ NotificationClose #
         (case find has_focus (clientList env) of
            Some c \<Rightarrow>
              [ClientNavigate (client_id c)
                 (if truthy (spec_field (spec_field (JObj kvs) (js ''data'')) (js ''url''))
                  then spec_field (spec_field (JObj kvs) (js ''data'')) (js ''url'')
                  else JStr (js ''/'')),
               ClientFocus (client_id c)]
          | None \<Rightarrow>
              if openWindow_defined env
              then [OpenWindow
                 (if truthy (spec_field (spec_field (JObj kvs) (js ''data'')) (js ''url''))
                  then spec_field (spec_field (JObj kvs) (js ''data'')) (js ''url'')
                  else JStr (js ''/''))]
              else [])"
proof -
  let ?u = "spec_field (spec_field (JObj kvs) (js ''data'')) (js ''url'')"
  let ?n = "\<lparr>nTitle = spec_preferred (JObj kvs) (js ''title'') DEFAULT_TITLE,
          nBody = spec_preferred (JObj kvs) (js ''body'') DEFAULT_BODY,
          nIcon = spec_preferred (JObj kvs) (js ''icon'') (JStr (js ''/static/flossy-icon.png'')),
          nBadge = js_or (spec_field (spec_field (JObj kvs) (js ''data'')) (js ''badge''))
                     (JStr (js ''/static/flossy-badge.png'')),
          nData = JObj [(js ''url'', js_or ?u (JStr (js ''/'')))]\<rparr>"
  have b: "build_notification (JObj kvs) = Inr ?n"
    by (rule build_notification_obj)
  have url: "notification_url ?n = js_or ?u (JStr (js ''/''))"
    by (rule notification_url_built)
  have tr: "truthy (js_or ?u (JStr (js ''/'')))"
    by (rule truthy_url_or_root)
  have tgt: "js_or ?u (JStr (js ''/'')) = (if truthy ?u then ?u else JStr (js ''/''))"
    by (simp only: js_or_def)
  have "sw_actions (notificationclick env ?n w) = sw_actions w @ NotificationClose #
         (case find has_focus (clientList env) of
            Some c \<Rightarrow>
              [ClientNavigate (client_id c) (if truthy ?u then ?u else JStr (js ''/'')),
               ClientFocus (client_id c)]
          | None \<Rightarrow>
              if openWindow_defined env
              then [OpenWindow (if truthy ?u then ?u else JStr (js ''/''))]
              else [])"
    unfolding sw_actions_click url using tr unfolding tgt
    by (simp split: option.splits)
  with b show ?thesis
    by blast
qed

theorem notification_click_target_witness:
  "sw_actions (notificationclick
       \<lparr>clientList = [\<lparr>client_id = 7, has_focus = True\<rparr>], openWindow_defined = True\<rparr>
       \<lparr>nTitle = DEFAULT_TITLE, nBody = DEFAULT_BODY,
        nIcon = JStr (js ''/static/flossy-icon.png''),
        nBadge = JStr (js ''/static/flossy-badge.png''),
        nData = JObj [(js ''url'', JStr (js ''/reminders''))]\<rparr> worker_init)
     = [NotificationClose, ClientNavigate 7 (JStr (js ''/reminders'')), ClientFocus 7]"
proof -
  have b: "build_notification (JObj [(js ''data'', JObj [(js ''url'', JStr (js ''/reminders''))])])
     = Inr \<lparr>nTitle = DEFAULT_TITLE, nBody = DEFAULT_BODY,
            nIcon = JStr (js ''/static/flossy-icon.png''),
            nBadge = JStr (js ''/static/flossy-badge.png''),
            nData = JObj [(js ''url'', JStr (js ''/reminders''))]\<rparr>"
    unfolding build_notification_obj
    by (simp add: spec_preferred_def spec_field_def js_or_def js_def)
  have u: "spec_field (spec_field (JObj [(js ''data'', JObj [(js ''url'', JStr (js ''/reminders''))])])
      (js ''data'')) (js ''url'') = JStr (js ''/reminders'')"
    by (simp add: spec_field_def js_def)
  have t: "truthy (JStr (js ''/reminders''))"
    by (simp add: js_def)
  from notification_click_target [of "[(js ''data'', JObj [(js ''url'', JStr (js ''/reminders''))])]"
        "\<lparr>clientList = [\<lparr>client_id = 7, has_focus = True\<rparr>], openWindow_defined = True\<rparr>"
        worker_init]
  show ?thesis
    unfolding b u by (simp add: t worker_init_def)
qed

text \<open>
  C8, as stated, fails: with no window client and no \<open>clients.openWindow\<close>, the click
  on the notification shown for \<open>{"data": {"url": "/reminders"}}\<close> closes the
  notification and navigates nowhere.
\<close>

theorem notification_click_no_page_counterexample:
  "build_notification (JObj [(js ''data'', JObj [(js ''url'', JStr (js ''/reminders''))])])
     = Inr \<lparr>nTitle = DEFAULT_TITLE, nBody = DEFAULT_BODY,
            nIcon = JStr (js ''/static/flossy-icon.png''),
            nBadge = JStr (js ''/static/flossy-badge.png''),
            nData = JObj [(js ''url'', JStr (js ''/reminders''))]\<rparr>
   \<and> sw_actions (notificationclick \<lparr>clientList = [], openWindow_defined = False\<rparr>
         \<lparr>nTitle = DEFAULT_TITLE, nBody = DEFAULT_BODY,
          nIcon = JStr (js ''/static/flossy-icon.png''),
          nBadge = JStr (js ''/static/flossy-badge.png''),
          nData = JObj [(js ''url'', JStr (js ''/reminders''))]\<rparr> worker_init)
     = [NotificationClose]"
  unfolding build_notification_obj sw_actions_click
  by (simp add: spec_preferred_def spec_field_def js_or_def js_def worker_init_def)

section \<open>The call button: properties\<close>

lemma label_neq: "CALL_END \<noteq> CALL_IDLE"
  by (simp add: CALL_END_def CALL_IDLE_def)

lemma call_inv_init: "call_inv page_init"
  by (simp add: call_inv_def page_init_def label_matches_def ws_is_open_def)

lemma call_inv_click:
  assumes "call_inv s" and "settled s"
  shows "call_inv (callBtn_click s)"
proof (cases "ws s")
  case None
  with assms show ?thesis
    by (auto simp: call_inv_def callBtn_click_def ws_is_open_def label_matches_def nth_append)
next
  case (Some i)
  with assms show ?thesis
    by (auto simp: call_inv_def callBtn_click_def ws_is_open_def label_matches_def settled_def
        nth_append nth_list_update label_neq less_Suc_eq)
qed

lemma call_inv_onopen:
  assumes "call_inv s"
  shows "call_inv (ws_onopen i s)"
  using assms
  by (cases "ws s")
    (auto simp: call_inv_def ws_onopen_def ws_is_open_def label_matches_def nth_list_update label_neq)

lemma call_inv_onclose:
  assumes "call_inv s"
  shows "call_inv (ws_onclose i s)"
  using assms
  by (cases "ws s")
    (auto simp: call_inv_def ws_onclose_def ws_is_open_def label_matches_def nth_list_update label_neq)

lemma call_inv_onmessage:
  assumes "call_inv s"
  shows "call_inv (ws_onmessage i d s)"
  using assms
  by (cases d)
    (auto simp: call_inv_def ws_onmessage_def ws_is_open_def label_matches_def split: option.splits)

lemma call_inv_step:
  assumes "call_inv s" and "e = Click \<longrightarrow> settled s"
  shows "call_inv (step e s)"
  using assms
  by (cases e) (simp_all add: call_inv_click call_inv_onopen call_inv_onclose call_inv_onmessage)

lemma call_inv_states:
  "call_inv s \<Longrightarrow> well_timed es s \<Longrightarrow> \<forall>t\<in>set (states es s). call_inv t"
proof (induction es arbitrary: s)
  case Nil
  then show ?case by simp
next
  case (Cons e es)
  then have "call_inv (step e s)"
    by (simp add: call_inv_step)
  with Cons show ?case
    by simp
qed

lemma call_inv_active:
  assumes "call_inv s"
  shows "length (active s) \<le> 1"
proof -
  have d: "distinct (active s)"
    by (simp add: active_def)
  have sub: "set (active s) \<subseteq> (case ws s of None \<Rightarrow> {} | Some i \<Rightarrow> {i})"
    using assms by (auto simp: active_def call_inv_def split: option.splits)
  have "card (set (active s)) \<le> card (case ws s of None \<Rightarrow> {} | Some i \<Rightarrow> {i})"
    by (rule card_mono [OF _ sub]) (simp split: option.splits)
  also have "\<dots> \<le> 1"
    by (simp split: option.splits)
  finally show ?thesis
    using d by (simp add: distinct_card)
qed

lemma well_timed_one_active:
  assumes "well_timed es page_init"
  shows "\<forall>s\<in>set (states es page_init). length (active s) \<le> 1"
  using call_inv_states [OF call_inv_init assms] call_inv_active by blast

lemma toggle_flips:
  assumes "call_inv s" and "settled s"
  shows "call_inv (toggle s) \<and> settled (toggle s) \<and> ws_is_open (toggle s) = (\<not> ws_is_open s)"
proof -
  have c: "call_inv (callBtn_click s)"
    using assms by (rule call_inv_click)
  show ?thesis
  proof (cases "ws_is_open s")
    case True
    then obtain i where i: "ws s = Some i" "sockets s ! i = OPEN"
      by (auto simp: ws_is_open_def split: option.splits)
    with assms have lt: "i < length (sockets s)"
      by (simp add: call_inv_def)
    have t: "toggle s = ws_onclose i (callBtn_click s)"
      using True i lt by (simp add: toggle_def transport_completes_def callBtn_click_def)
    have "call_inv (toggle s)"
      unfolding t using c by (rule call_inv_onclose)
    moreover have "settled (toggle s)" "\<not> ws_is_open (toggle s)"
      unfolding t using True i lt
      by (simp_all add: settled_def ws_is_open_def ws_onclose_def callBtn_click_def)
    ultimately show ?thesis
      using True by simp
  next
    case False
    have t: "toggle s = ws_onopen (length (sockets s)) (callBtn_click s)"
      using False by (simp add: toggle_def transport_completes_def callBtn_click_def)
    have "call_inv (toggle s)"
      unfolding t using c by (rule call_inv_onopen)
    moreover have "settled (toggle s)" "ws_is_open (toggle s)"
      unfolding t using False
      by (simp_all add: settled_def ws_is_open_def ws_onopen_def callBtn_click_def)
    ultimately show ?thesis
      using False by simp
  qed
qed

lemma click_not_open:
  assumes "call_inv s"
  shows "\<not> ws_is_open (callBtn_click s)"
proof (cases "ws_is_open s")
  case True
  then obtain i where i: "ws s = Some i" "sockets s ! i = OPEN"
    by (auto simp: ws_is_open_def split: option.splits)
  with assms have "i < length (sockets s)"
    by (simp add: call_inv_def)
  with True i show ?thesis
    by (simp add: callBtn_click_def ws_is_open_def)
next
  case False
  then show ?thesis
    by (simp add: callBtn_click_def ws_is_open_def)
qed

lemma toggles_parity:
  "call_inv ((toggle ^^ k) page_init) \<and> settled ((toggle ^^ k) page_init)
     \<and> ws_is_open ((toggle ^^ k) page_init) = odd k"
proof (induction k)
  case 0
  show ?case
    using call_inv_init by (simp add: settled_def ws_is_open_def page_init_def)
next
  case (Suc k)
  then show ?case
    using toggle_flips [of "(toggle ^^ k) page_init"] by simp
qed

text \<open>
  C2, as amended. In every sequence of clicks and connection events in which no click is
  made while the controller's connection is connecting or closing, the label is the end
  call label exactly when that connection is open and the idle glyph otherwise, at every
  point. When the transport completes each toggle before the next click, the label after
  the k-th toggle is the end call label for odd k and the idle glyph for even k, and it
  matches the connection after each toggle and after the click that follows; right after
  that click, before the transport's event, the label is the idle glyph.
\<close>

theorem label_matches_and_alternates:
  "(well_timed es page_init \<longrightarrow> (\<forall>s\<in>set (states es page_init). label_matches s))
   \<and> callBtn_text ((toggle ^^ k) page_init) = (if odd k then CALL_END else CALL_IDLE)
   \<and> label_matches ((toggle ^^ k) page_init)
   \<and> label_matches (callBtn_click ((toggle ^^ k) page_init))
   \<and> callBtn_text (callBtn_click ((toggle ^^ k) page_init)) = CALL_IDLE"
proof -
  have a: "well_timed es page_init \<longrightarrow> (\<forall>s\<in>set (states es page_init). label_matches s)"
    using call_inv_states [OF call_inv_init, of es] by (auto simp: call_inv_def)
  have p: "call_inv ((toggle ^^ k) page_init)" "settled ((toggle ^^ k) page_init)"
    "ws_is_open ((toggle ^^ k) page_init) = odd k"
    using toggles_parity [of k] by simp_all
  have m: "label_matches ((toggle ^^ k) page_init)"
    using p(1) by (simp add: call_inv_def)
  have b: "callBtn_text ((toggle ^^ k) page_init) = (if odd k then CALL_END else CALL_IDLE)"
    using m p(3) by (simp add: label_matches_def)
  have "call_inv (callBtn_click ((toggle ^^ k) page_init))"
    using p(1) p(2) by (rule call_inv_click)
  then have c: "label_matches (callBtn_click ((toggle ^^ k) page_init))"
    by (simp add: call_inv_def)
  have "\<not> ws_is_open (callBtn_click ((toggle ^^ k) page_init))"
    using p(1) by (rule click_not_open)
  with c have d: "callBtn_text (callBtn_click ((toggle ^^ k) page_init)) = CALL_IDLE"
    by (simp add: label_matches_def)
  show ?thesis
    using a b m c d by simp
qed

theorem label_matches_and_alternates_witness:
  "list_all label_matches (states [Click, WsOpen 0, Click, WsClose 0, Click] page_init)
   \<and> callBtn_text ((toggle ^^ 3) page_init) = CALL_END
   \<and> callBtn_text (callBtn_click ((toggle ^^ 3) page_init)) = CALL_IDLE"
proof -
  have w: "well_timed [Click, WsOpen 0, Click, WsClose 0, Click] page_init"
    by (simp add: page_init_def callBtn_click_def ws_is_open_def ws_onopen_def ws_onclose_def
        settled_def)
  have o: "odd (3::nat)"
    by simp
  show ?thesis
    using label_matches_and_alternates [of "[Click, WsOpen 0, Click, WsClose 0, Click]" 3] w o
    by (simp add: list_all_iff)
qed

text \<open>
  C2, as stated, fails. After the first click the label is still the idle glyph, and it
  stays so when the connection attempt fails, so the label does not alternate with the
  clicks; and after a click made while the previous connection is closing, the close
  event of that connection resets the label while the new connection is open.
\<close>

theorem label_alternation_counterexample:
  "callBtn_text (run [Click] page_init) = CALL_IDLE
   \<and> callBtn_text (run [Click, WsClose 0] page_init) = CALL_IDLE
   \<and> callBtn_text (run [Click, WsOpen 0, Click, Click, WsOpen 1, WsClose 0] page_init) = CALL_IDLE
   \<and> ws_is_open (run [Click, WsOpen 0, Click, Click, WsOpen 1, WsClose 0] page_init)
   \<and> CALL_IDLE \<noteq> CALL_END"
  by (simp add: page_init_def callBtn_click_def ws_is_open_def ws_onopen_def ws_onclose_def
      CALL_IDLE_def CALL_END_def)

text \<open>
  C1. The controller is to hold at most one connection that is not closed, opening a new
  one only when none is active. The code opens one whenever \<open>ws\<close> is not OPEN: a second
  click before the first connection has opened leaves two connections that are not
  closed, both of which then open, and the first one can no longer be closed by the
  controller.
\<close>

theorem second_click_while_connecting_opens_second_connection:
  "sockets (run [Click, Click] page_init) = [CONNECTING, CONNECTING]
   \<and> active (run [Click, Click] page_init) = [0, 1]
   \<and> sockets (run [Click, Click, WsOpen 0, WsOpen 1] page_init) = [OPEN, OPEN]
   \<and> sockets (run [Click, Click, WsOpen 0, WsOpen 1, Click, WsClose 1] page_init) = [OPEN, CLOSED]"
  by (simp add: page_init_def callBtn_click_def ws_is_open_def ws_onopen_def ws_onclose_def
      active_def upt_rec)

end
